theory Spec2Isabelle
  imports Complex_Main
begin

section \<open>Python values\<close>

text \<open>
  A Python \<open>str\<close> is a sequence of Unicode code points. The sources hold accented
  letters and emoji, so a string is modelled as the list of its code points;
  \<open>ascii\<close> embeds an ASCII literal.
\<close>

type_synonym pystr = "nat list"

definition ascii :: "string \<Rightarrow> pystr" where
  "ascii s = map of_char s"

text \<open>
  The exceptions that the modelled code can meet. All of them derive from Python's
  \<open>Exception\<close> class except \<open>KeyboardInterrupt\<close>, which derives from
  \<open>BaseException\<close> only and therefore passes through an \<open>except Exception\<close> clause.
\<close>

datatype py_exception =
    RequestException
  | JSONDecodeError
  | KeyError
  | IndexError
  | TypeError
  | OverflowError
  | KeyboardInterrupt


text \<open>
  The values that \<open>response.json()\<close> can produce: \<open>None\<close>, booleans, integers, floats,
  strings, lists and dictionaries with string keys.
\<close>

datatype pyval =
    PNone
  | PBool bool
  | PInt int
  | PFloat real
  | PStr pystr
  | PList "pyval list"
  | PDict "pystr \<Rightarrow> pyval option"




section \<open>Floats\<close>

text \<open>
  The three readings, the biomass and the sack price are Python floats. A finite float is
  modelled as the real number it denotes and \<open>+\<close>, \<open>-\<close>, \<open>*\<close>, \<open>/\<close> as the exact
  operations: rounding is not part of the model, and neither are \<open>inf\<close> and \<open>nan\<close>, which
  these four operators return silently instead of raising. An \<open>int\<close> argument (the
  dashboard passes the biomass as one) stands for the float it is converted to.

  The power operator is different. For finite operands \<open>x ** n\<close> raises \<open>OverflowError\<close>
  as soon as the result leaves the range of a double, where \<open>x * x\<close> would return \<open>inf\<close>.
  A raise is control flow, so it is a branch of the model. A real number rounds to a
  finite double exactly when its magnitude is below \<open>2 ^ 1024 - 2 ^ 970\<close>, the midpoint
  between the largest double and \<open>2 ^ 1024\<close>.
\<close>

definition float_overflow :: "real \<Rightarrow> bool" where
  "float_overflow x \<longleftrightarrow> 2 ^ 1024 - 2 ^ 970 \<le> \<bar>x\<bar>"

definition float_pow :: "real \<Rightarrow> nat \<Rightarrow> py_exception + real" where
  "float_pow x n = (if float_overflow (x ^ n) then Inl OverflowError else Inr (x ^ n))"

section \<open>The dashboard backend, \<open>aquadata_app.py\<close>\<close>

text \<open>
  \<open>calcular_ahorro(temp_agua, biomasa_kg, precio_saco)\<close>: the continuous feeding model.
  The local variables keep their names; the result is the triple
  \<open>(alimento_necesario_kg, ahorro, tasa)\<close>.
\<close>

definition calcular_ahorro :: "real \<Rightarrow> real \<Rightarrow> real \<Rightarrow> py_exception + (real \<times> real \<times> real)" where
  "calcular_ahorro temp_agua biomasa_kg precio_saco =
     (case float_pow (temp_agua - 28) 2 of
        Inl e \<Rightarrow> Inl e
      | Inr cuadrado \<Rightarrow>
          (let tasa_optima = 0.03 * (1 - 0.01 * cuadrado);
               tasa = max 0.005 tasa_optima;
               alimento_necesario_kg = biomasa_kg * tasa;
               gasto_ciego = (biomasa_kg * 0.03 / 25) * precio_saco;
               costo_optimo = (alimento_necesario_kg / 25) * precio_saco;
               ahorro = gasto_ciego - costo_optimo
           in Inr (alimento_necesario_kg, ahorro, tasa)))"

text \<open>
  \<open>obtener_estado_camaron(temp, ph, oxigeno)\<close>: three guarded returns and a default, in
  the order of the source. The result is the tuple (code, colour, emoji, title,
  description). Comparisons of floats raise nothing, so there is no error branch.
\<close>

definition obtener_estado_camaron ::
    "real \<Rightarrow> real \<Rightarrow> real \<Rightarrow> pystr \<times> pystr \<times> pystr \<times> pystr \<times> pystr" where
  "obtener_estado_camaron temp ph oxigeno =
     (if temp < 24 \<or> temp > 30 then
        (ascii ''cold'', ascii ''#3b82f6'', [0x1F976],
         ascii ''Temperatura Cr'' @ [0xED] @ ascii ''tica'',
         ascii ''Riesgo t'' @ [0xE9] @ ascii ''rmico'')
      else if ph < 7.5 \<or> ph > 8.5 then
        (ascii ''stressed'', ascii ''#f59e0b'', [0x1F630],
         ascii ''Estresado'', ascii ''pH desequilibrado'')
      else if oxigeno < 4 then
        (ascii ''suffocating'', ascii ''#ef4444'', [0x1F635],
         ascii ''Hipoxia'', ascii ''Ox'' @ [0xED] @ ascii ''geno bajo'')
      else
        (ascii ''healthy'', ascii ''#10b981'', [0x1F990],
         ascii ''Saludable'', ascii ''Condiciones '' @ [0xF3] @ ascii ''ptimas''))"





section \<open>The stand-alone demo, \<open>camaron.py\<close>\<close>

text \<open>
  \<open>calcular_alimentacion_inteligente(temp_agua, biomasa_kg, precio_saco=25.00)\<close>: the
  stepped feeding model. The function prints a report and returns \<open>None\<close>; the model
  returns the local variables from which the report is formatted.
\<close>

record reporte =
  tasa :: real
  estado :: pystr
  alimento_necesario_kg :: real
  sacos_necesarios :: real
  costo_dia :: real
  gasto_ciego :: real
  ahorro :: real

definition precio_saco_default :: real where
  "precio_saco_default = 25.00"

definition calcular_alimentacion_inteligente :: "real \<Rightarrow> real \<Rightarrow> real \<Rightarrow> reporte" where
  "calcular_alimentacion_inteligente temp_agua biomasa_kg precio_saco =
     (let (tasa_v, estado_v) =
            (if temp_agua > 26 then
               (0.03, [0x1F7E2] @ ascii '' '' @ [0xD3] @ ascii ''ptimo'')
             else if 24 \<le> temp_agua \<and> temp_agua \<le> 26 then
               (0.02, [0x1F7E1] @ ascii '' Precauci'' @ [0xF3] @ ascii ''n'')
             else
               (0.005, [0x1F534] @ ascii '' Cr'' @ [0xED] @ ascii ''tico (Fr'' @ [0xED] @ ascii ''o)''));
          alimento_v = biomasa_kg * tasa_v;
          sacos_v = alimento_v / 25;
          costo_v = sacos_v * precio_saco;
          ciego_v = (biomasa_kg * 0.03 / 25) * precio_saco
      in \<lparr> tasa = tasa_v, estado = estado_v, alimento_necesario_kg = alimento_v,
           sacos_necesarios = sacos_v, costo_dia = costo_v, gasto_ciego = ciego_v,
           ahorro = ciego_v - costo_v \<rparr>)"

text \<open>The call at the end of the script: a pond of 5000 kg in water at 23 degrees.\<close>

definition simulacion :: reporte where
  "simulacion = calcular_alimentacion_inteligente 23.0 5000 precio_saco_default"

section \<open>Auxiliary facts\<close>

lemma calcular_ahorro_cases:
  "calcular_ahorro t b p =
     (if float_overflow ((t - 28) ^ 2) then Inl OverflowError
      else Inr (b * max 0.005 (0.03 * (1 - 0.01 * (t - 28) ^ 2)),
                (b * 0.03 / 25) * p - (b * max 0.005 (0.03 * (1 - 0.01 * (t - 28) ^ 2)) / 25) * p,
                max 0.005 (0.03 * (1 - 0.01 * (t - 28) ^ 2))))"
  by (simp add: calcular_ahorro_def float_pow_def Let_def)

lemma float_overflow_square:
  assumes "2 ^ 512 \<le> \<bar>x\<bar>"
  shows "float_overflow (x ^ 2)"
proof -
  have "(2 ^ 512) ^ 2 \<le> \<bar>x\<bar> ^ 2" using assms by (intro power_mono) simp_all
  then have "(2::real) ^ 1024 \<le> x ^ 2" by (simp add: power_mult [symmetric] del: power_mult)
  moreover have "(0::real) \<le> 2 ^ 970" by simp
  ultimately have "(2::real) ^ 1024 - 2 ^ 970 \<le> \<bar>x ^ 2\<bar>" by linarith
  then show ?thesis unfolding float_overflow_def .
qed

lemma float_no_overflow_square:
  assumes "\<bar>x\<bar> \<le> 2 ^ 10"
  shows "\<not> float_overflow (x ^ 2)"
proof -
  have "\<bar>x\<bar> ^ 2 \<le> (2 ^ 10) ^ 2" using assms by (intro power_mono) simp_all
  then have "\<bar>x ^ 2\<bar> \<le> 2 ^ 20" by (simp add: power_mult [symmetric] del: power_mult)
  moreover have "(2::real) ^ 20 < 2 ^ 1024 - 2 ^ 970"
  proof -
    have "(2::real) ^ 970 + 2 ^ 970 = 2 ^ 971" by simp
    moreover have "(2::real) ^ 971 < 2 ^ 1024" by (intro power_strict_increasing) simp_all
    moreover have "(2::real) ^ 20 < 2 ^ 970" by (intro power_strict_increasing) simp_all
    ultimately show ?thesis by linarith
  qed
  ultimately show ?thesis unfolding float_overflow_def by linarith
qed








section \<open>The continuous feeding model\<close>

text \<open>
  Claim C1, as amended. For every temperature whose squared distance from 28 is within the
  range of a double, and for every biomass and sack price, \<open>calcular_ahorro\<close> returns
  exactly \<open>rate = max(0.005, 0.03 * (1 - 0.01 * (temp - 28)^2))\<close>,
  \<open>feedNeededKg = biomassKg * rate\<close> and
  \<open>estimatedSavingsUsd = (biomassKg * 0.03 / 25) * sackPriceUsd - (feedNeededKg / 25) * sackPriceUsd\<close>.
\<close>

theorem calcular_ahorro_formula:
  assumes "\<not> float_overflow ((temp - 28) ^ 2)"
  shows "calcular_ahorro temp biomassKg sackPriceUsd =
     (let rate = max 0.005 (0.03 * (1 - 0.01 * (temp - 28) ^ 2));
          feedNeededKg = biomassKg * rate;
          estimatedSavingsUsd =
            (biomassKg * 0.03 / 25) * sackPriceUsd - (feedNeededKg / 25) * sackPriceUsd
      in Inr (feedNeededKg, estimatedSavingsUsd, rate))"
  using assms by (simp add: calcular_ahorro_cases Let_def)

text \<open>
  The amended claim at 23 degrees, 5000 kg and 25 USD: the rate is 2.25 percent, the feed
  112.5 kg and the savings 37.5 USD.
\<close>

theorem calcular_ahorro_formula_witness:
  "\<not> float_overflow ((23 - 28) ^ 2) \<and> calcular_ahorro 23 5000 25 = Inr (112.5, 37.5, 0.0225)"
proof -
  have h: "\<not> float_overflow ((23 - 28) ^ 2)" by (rule float_no_overflow_square) simp
  have "calcular_ahorro 23 5000 25 = Inr (112.5, 37.5, 0.0225)"
    using calcular_ahorro_formula [OF h, of 5000 25] by (simp add: Let_def)
  with h show ?thesis by blast
qed

text \<open>
  The claim as it was stated, for every temperature, fails at the finite temperature
  \<open>1e200\<close>: the square overflows, the power operator raises and nothing is returned, so the
  result is not the triple that the formulas give.
\<close>

theorem calcular_ahorro_formula_counterexample:
  "calcular_ahorro (10 ^ 200) 5000 25 \<noteq>
     Inr (5000 * max 0.005 (0.03 * (1 - 0.01 * (10 ^ 200 - 28) ^ 2)),
          (5000 * 0.03 / 25) * 25
            - (5000 * max 0.005 (0.03 * (1 - 0.01 * (10 ^ 200 - 28) ^ 2)) / 25) * 25,
          max 0.005 (0.03 * (1 - 0.01 * (10 ^ 200 - 28) ^ 2)))"
proof -
  have "(2::real) ^ 512 \<le> \<bar>10 ^ 200 - 28\<bar>" by simp
  then have "float_overflow ((10 ^ 200 - 28) ^ 2)" by (rule float_overflow_square)
  then have "calcular_ahorro (10 ^ 200) 5000 25 = Inl OverflowError"
    by (simp only: calcular_ahorro_cases if_True)
  then show ?thesis by (simp only: sum.distinct not_False_eq_True)
qed




text \<open>
  Claim C6. At temperature 28 the rate is exactly 0.03, the cost equals the blind cost and
  the savings are 0; for 5000 kg and a sack price of 25 the feed is 150.0 kg and the savings
  are 0.0.
\<close>

theorem calcular_ahorro_vertex:
  "calcular_ahorro 28 biomassKg sackPriceUsd = Inr (biomassKg * 0.03, 0.0, 0.03)
   \<and> calcular_ahorro 28 5000 25 = Inr (150.0, 0.0, 0.03)"
proof -
  have "\<not> float_overflow ((28 - 28) ^ 2)" by (rule float_no_overflow_square) simp
  then show ?thesis by (simp add: calcular_ahorro_cases)
qed





section \<open>The pond status classifier\<close>

text \<open>
  Claim C2. \<open>obtener_estado_camaron\<close> is an ordered decision list in which the first rule
  that matches wins: the cold tuple when the temperature is below 24 or above 30; otherwise
  the stressed tuple when the pH is below 7.5 or above 8.5; otherwise the suffocating tuple
  when the oxygen is below 4; otherwise the healthy tuple. At (20, 9.0, 2.0) all three
  conditions hold and the result is the cold tuple.
\<close>

theorem obtener_estado_camaron_decision_list:
  "(temp < 24 \<or> temp > 30 \<longrightarrow>
      obtener_estado_camaron temp ph oxigeno =
        (ascii ''cold'', ascii ''#3b82f6'', [0x1F976],
         ascii ''Temperatura Cr'' @ [0xED] @ ascii ''tica'',
         ascii ''Riesgo t'' @ [0xE9] @ ascii ''rmico''))
   \<and> (\<not> (temp < 24 \<or> temp > 30) \<and> (ph < 7.5 \<or> ph > 8.5) \<longrightarrow>
      obtener_estado_camaron temp ph oxigeno =
        (ascii ''stressed'', ascii ''#f59e0b'', [0x1F630],
         ascii ''Estresado'', ascii ''pH desequilibrado''))
   \<and> (\<not> (temp < 24 \<or> temp > 30) \<and> \<not> (ph < 7.5 \<or> ph > 8.5) \<and> oxigeno < 4 \<longrightarrow>
      obtener_estado_camaron temp ph oxigeno =
        (ascii ''suffocating'', ascii ''#ef4444'', [0x1F635],
         ascii ''Hipoxia'', ascii ''Ox'' @ [0xED] @ ascii ''geno bajo''))
   \<and> (\<not> (temp < 24 \<or> temp > 30) \<and> \<not> (ph < 7.5 \<or> ph > 8.5) \<and> \<not> oxigeno < 4 \<longrightarrow>
      obtener_estado_camaron temp ph oxigeno =
        (ascii ''healthy'', ascii ''#10b981'', [0x1F990],
         ascii ''Saludable'', ascii ''Condiciones '' @ [0xF3] @ ascii ''ptimas''))
   \<and> obtener_estado_camaron 20 9.0 2.0 =
        (ascii ''cold'', ascii ''#3b82f6'', [0x1F976],
         ascii ''Temperatura Cr'' @ [0xED] @ ascii ''tica'',
         ascii ''Riesgo t'' @ [0xE9] @ ascii ''rmico'')"
  by (simp add: obtener_estado_camaron_def)

text \<open>
  One reading for each rule: the four rules fire at (23, 7.8, 5.2), (27, 8.9, 5.2),
  (27, 8.0, 3.5) and (27, 8.0, 5.2).
\<close>

theorem obtener_estado_camaron_decision_list_witness:
  "fst (obtener_estado_camaron 23 7.8 5.2) = ascii ''cold''
   \<and> fst (obtener_estado_camaron 27 8.9 5.2) = ascii ''stressed''
   \<and> fst (obtener_estado_camaron 27 8.0 3.5) = ascii ''suffocating''
   \<and> fst (obtener_estado_camaron 27 8.0 5.2) = ascii ''healthy''"
  using obtener_estado_camaron_decision_list [of 23 "7.8" "5.2"]
    obtener_estado_camaron_decision_list [of 27 "8.9" "5.2"]
    obtener_estado_camaron_decision_list [of 27 "8.0" "3.5"]
    obtener_estado_camaron_decision_list [of 27 "8.0" "5.2"]
  by simp

text \<open>
  Claim C5. For every temperature in [24, 30], every pH in [7.5, 8.5] and every oxygen
  level of at least 4 the classifier returns the healthy status.
\<close>

theorem obtener_estado_camaron_in_range:
  assumes "24 \<le> temp" and "temp \<le> 30" and "7.5 \<le> ph" and "ph \<le> 8.5" and "4 \<le> oxigeno"
  shows "obtener_estado_camaron temp ph oxigeno =
           (ascii ''healthy'', ascii ''#10b981'', [0x1F990],
            ascii ''Saludable'', ascii ''Condiciones '' @ [0xF3] @ ascii ''ptimas'')"
  using assms by (simp add: obtener_estado_camaron_def)

text \<open>
  The reading (26, 8.2, 6) lies in all three ranges and is healthy.
\<close>

theorem obtener_estado_camaron_in_range_witness:
  "(24::real) \<le> 26 \<and> (26::real) \<le> 30 \<and> (7.5::real) \<le> 8.2 \<and> (8.2::real) \<le> 8.5 \<and> (4::real) \<le> 6
   \<and> obtener_estado_camaron 26 8.2 6 =
           (ascii ''healthy'', ascii ''#10b981'', [0x1F990],
            ascii ''Saludable'', ascii ''Condiciones '' @ [0xF3] @ ascii ''ptimas'')"
  using obtener_estado_camaron_in_range [of 26 "8.2" 6] by simp

text \<open>
  Claim C10. The classifier returns healthy if and only if \<open>24 \<le> temp \<le> 30\<close>,
  \<open>7.5 \<le> pH \<le> 8.5\<close> and \<open>oxygen \<ge> 4\<close>; every comparison of the source is strict, so the
  boundary readings are healthy.
\<close>

theorem obtener_estado_camaron_healthy_iff:
  "(fst (obtener_estado_camaron temp ph oxigeno) = ascii ''healthy''
      \<longleftrightarrow> 24 \<le> temp \<and> temp \<le> 30 \<and> 7.5 \<le> ph \<and> ph \<le> 8.5 \<and> 4 \<le> oxigeno)
   \<and> fst (obtener_estado_camaron 24 7.5 4) = ascii ''healthy''
   \<and> fst (obtener_estado_camaron 24 8.5 4) = ascii ''healthy''
   \<and> fst (obtener_estado_camaron 30 7.5 4) = ascii ''healthy''
   \<and> fst (obtener_estado_camaron 30 8.5 4) = ascii ''healthy''"
  by (auto simp add: obtener_estado_camaron_def ascii_def)

text \<open>
  Both directions at concrete readings: one healthy reading and one reading just outside
  each of the three ranges.
\<close>

theorem obtener_estado_camaron_healthy_iff_witness:
  "fst (obtener_estado_camaron 29 8 4) = ascii ''healthy''
   \<and> fst (obtener_estado_camaron 30.5 8 5) \<noteq> ascii ''healthy''
   \<and> fst (obtener_estado_camaron 29 7.4 5) \<noteq> ascii ''healthy''
   \<and> fst (obtener_estado_camaron 29 8 3.9) \<noteq> ascii ''healthy''"
  using obtener_estado_camaron_healthy_iff [of 29 8 4]
    obtener_estado_camaron_healthy_iff [of "30.5" 8 5]
    obtener_estado_camaron_healthy_iff [of 29 "7.4" 5]
    obtener_estado_camaron_healthy_iff [of 29 8 "3.9"]
  by simp

section \<open>The stepped feeding model\<close>

text \<open>
  Claim C4. The stepped model uses the rate 0.03 above 26 degrees, 0.02 from 24 to 26
  degrees and 0.005 otherwise; for 23 degrees, 5000 kg and a sack price of 25 it computes
  the rate 0.005, 25.0 kg of feed, a cost of 25.0, a blind cost of 150.0 and savings of 125.0.
\<close>

theorem calcular_alimentacion_inteligente_stepped:
  "(temp > 26 \<longrightarrow> tasa (calcular_alimentacion_inteligente temp b p) = 0.03)
   \<and> (24 \<le> temp \<and> temp \<le> 26 \<longrightarrow> tasa (calcular_alimentacion_inteligente temp b p) = 0.02)
   \<and> (\<not> temp > 26 \<and> \<not> (24 \<le> temp \<and> temp \<le> 26) \<longrightarrow>
        tasa (calcular_alimentacion_inteligente temp b p) = 0.005)
   \<and> tasa (calcular_alimentacion_inteligente 23 5000 25) = 0.005
   \<and> alimento_necesario_kg (calcular_alimentacion_inteligente 23 5000 25) = 25.0
   \<and> costo_dia (calcular_alimentacion_inteligente 23 5000 25) = 25.0
   \<and> gasto_ciego (calcular_alimentacion_inteligente 23 5000 25) = 150.0
   \<and> ahorro (calcular_alimentacion_inteligente 23 5000 25) = 125.0"
  by (auto simp add: calcular_alimentacion_inteligente_def Let_def)

text \<open>
  The three steps at 27, at both ends of the middle range, and just below 24 degrees.
\<close>

theorem calcular_alimentacion_inteligente_stepped_witness:
  "tasa (calcular_alimentacion_inteligente 27 5000 25) = 0.03
   \<and> tasa (calcular_alimentacion_inteligente 26 5000 25) = 0.02
   \<and> tasa (calcular_alimentacion_inteligente 24 5000 25) = 0.02
   \<and> tasa (calcular_alimentacion_inteligente 23.9 5000 25) = 0.005"
  using calcular_alimentacion_inteligente_stepped [of 27 5000 25]
    calcular_alimentacion_inteligente_stepped [of 26 5000 25]
    calcular_alimentacion_inteligente_stepped [of 24 5000 25]
    calcular_alimentacion_inteligente_stepped [of "23.9" 5000 25]
  by simp

text \<open>The call at the end of the script is the call of claim C4.\<close>

lemma simulacion_call:
  "simulacion = calcular_alimentacion_inteligente 23 5000 25"
  by (simp add: simulacion_def precio_saco_default_def)

section \<open>The weather collaborator\<close>



end
